theory Spec2Isabelle
  imports Main "HOL-Library.Extended_Nat"
begin

section \<open>JavaScript values\<close>

text \<open>
  The identifiers and queue names of the routing layer are JavaScript values that may be
  missing: a property that is not set reads as \<open>undefined\<close>, a parameter may be passed
  \<open>null\<close>. Only these and strings occur in the code embedded here.
\<close>

datatype jsval = Undefined | Null | Str string

text \<open>Truthiness, as \<open>||\<close> and \<open>? :\<close> test it: the empty string is falsy.\<close>

fun truthy :: "jsval \<Rightarrow> bool" where
  "truthy (Str s) = (s \<noteq> [])"
| "truthy Undefined = False"
| "truthy Null = False"

text \<open>\<open>a || b\<close>: the left operand when it is truthy, the right one otherwise.\<close>

definition js_or :: "jsval \<Rightarrow> jsval \<Rightarrow> jsval" where
  "js_or a b = (if truthy a then a else b)"

text \<open>The conversion a template literal applies to \<open>${v}\<close>.\<close>

fun to_string :: "jsval \<Rightarrow> string" where
  "to_string (Str s) = s"
| "to_string Undefined = ''undefined''"
| "to_string Null = ''null''"

text \<open>A default parameter value \<open>(p = d)\<close> replaces \<open>undefined\<close> only, not \<open>null\<close>.\<close>

definition default_param :: "jsval \<Rightarrow> jsval \<Rightarrow> jsval" where
  "default_param v d = (if v = Undefined then d else v)"

section \<open>Agent identity (rabbitmq-client.js, constructor)\<close>

text \<open>
  \<^verbatim>\<open>constructor(config = {}) {
    this.agentId = config.agentId || process.env.AGENT_ID || `agent-${uuidv4()}`;\<close>

  The constructor is called with no argument (\<open>None\<close>, the default \<open>{}\<close>) or with an
  object; \<open>config_agentId\<close> is \<open>config.agentId\<close> after the default. The environment
  variable and the value \<open>uuidv4()\<close> would draw are arguments of the model.
\<close>

record config =
  agentId :: jsval

record client =
  this_agentId :: jsval

definition config_agentId :: "config option \<Rightarrow> jsval" where
  "config_agentId config =
     agentId (case config of None \<Rightarrow> \<lparr>agentId = Undefined\<rparr> | Some c \<Rightarrow> c)"

definition RabbitMQClient :: "config option \<Rightarrow> jsval \<Rightarrow> string \<Rightarrow> client" where
  "RabbitMQClient config env_AGENT_ID uuidv4 =
     \<lparr>this_agentId =
        js_or (js_or (config_agentId config) env_AGENT_ID) (Str (''agent-'' @ uuidv4))\<rparr>"

section \<open>Exclusive result queues and result publishing (rabbitmq-client.js)\<close>

record queue_options =
  exclusive :: bool
  autoDelete :: bool
  durable :: bool

record brainstorm_response =
  sessionId :: jsval
  from_agent :: jsval
  suggestion :: string
  timestamp :: nat
  msg_type :: string

text \<open>
  The channel: the queues asserted on it, and the messages sent, each with the queue it
  was sent to, in the order of the calls.
\<close>

record channel =
  asserted :: "(string \<times> queue_options) list"
  sent :: "(jsval \<times> brainstorm_response) list"

text \<open>
  \<^verbatim>\<open>async setupBrainstormResultQueue() {
    const queueName = `brainstorm.results.${this.agentId}`;
    await this.channel.assertQueue(queueName, {exclusive: true, autoDelete: true, durable: false});
    return queueName;\<close>
\<close>

definition setupBrainstormResultQueue :: "client \<Rightarrow> channel \<Rightarrow> string \<times> channel" where
  "setupBrainstormResultQueue this ch =
     (let queueName = ''brainstorm.results.'' @ to_string (this_agentId this)
      in (queueName,
          ch\<lparr>asserted := asserted ch @
               [(queueName, \<lparr>exclusive = True, autoDelete = True, durable = False\<rparr>)]\<rparr>))"

text \<open>
  \<^verbatim>\<open>async broadcastBrainstorm(message, exchangeName = 'agent.brainstorm') {
    const msg = { /* ... */ replyTo: `brainstorm.results.${this.agentId}`, /* ... */ };\<close>

  The fields of the broadcast that the handler of a collaborator reads are \<open>from\<close>,
  \<open>replyTo\<close> and \<open>message.sessionId\<close>. The sources show how \<open>replyTo\<close> is
  computed and elide the rest, which is therefore an argument here.
\<close>

record brainstorm_msg =
  msg_from :: jsval
  msg_replyTo :: jsval
  msg_sessionId :: jsval

definition broadcastBrainstorm :: "client \<Rightarrow> brainstorm_msg \<Rightarrow> brainstorm_msg" where
  "broadcastBrainstorm this rest =
     rest\<lparr>msg_replyTo := Str (''brainstorm.results.'' @ to_string (this_agentId this))\<rparr>"

text \<open>
  \<^verbatim>\<open>async publishResult(result, targetAgentId = null, queueName = 'agent.results') {
    const destinationQueue = targetAgentId
      ? `brainstorm.results.${targetAgentId}`  // Targeted
      : queueName;                              // Broadcast\<close>

  An omitted argument is \<open>Undefined\<close>. The elided rest of the body sends the result to
  \<open>destinationQueue\<close>.
\<close>

definition destinationQueue :: "jsval \<Rightarrow> jsval \<Rightarrow> jsval" where
  "destinationQueue targetAgentId queueName =
     (let targetAgentId = default_param targetAgentId Null;
          queueName = default_param queueName (Str ''agent.results'')
      in if truthy targetAgentId
         then Str (''brainstorm.results.'' @ to_string targetAgentId)
         else queueName)"

definition publishResult :: "brainstorm_response \<Rightarrow> jsval \<Rightarrow> jsval \<Rightarrow> channel \<Rightarrow> channel" where
  "publishResult result targetAgentId queueName ch =
     ch\<lparr>sent := sent ch @ [(destinationQueue targetAgentId queueName, result)]\<rparr>"

section \<open>The collaborator's answer to a broadcast (orchestrator.js, handleBrainstorm)\<close>

text \<open>
  \<^verbatim>\<open>async handleBrainstorm(msg) {
    const response = { sessionId: msg.message.sessionId, from: this.agentId,
      suggestion: generatedSuggestion, timestamp: Date.now(), type: 'brainstorm_response' };
    await this.publishResult(response, msg.from);   // 1. Targeted
    await this.publishResult(response);             // 2. Broadcast
    this.stats.brainstormsParticipated++;\<close>

  The orchestrator's \<open>publishResult\<close> is the client's. The suggestion and the clock are
  arguments.
\<close>

record orchestrator =
  orch_agentId :: jsval
  brainstormsParticipated :: nat

definition handleBrainstorm ::
  "brainstorm_msg \<Rightarrow> string \<Rightarrow> nat \<Rightarrow> orchestrator \<times> channel \<Rightarrow> orchestrator \<times> channel" where
  "handleBrainstorm msg generatedSuggestion now st =
     (let this = fst st; ch = snd st;
          response = \<lparr>sessionId = msg_sessionId msg, from_agent = orch_agentId this,
                      suggestion = generatedSuggestion, timestamp = now,
                      msg_type = ''brainstorm_response''\<rparr>;
          ch1 = publishResult response (msg_from msg) Undefined ch;
          ch2 = publishResult response Undefined Undefined ch1
      in (this\<lparr>brainstormsParticipated := brainstormsParticipated this + 1\<rparr>, ch2))"

text \<open>The messages a consumer of one queue sees, in order.\<close>

definition delivered_to :: "jsval \<Rightarrow> channel \<Rightarrow> brainstorm_response list" where
  "delivered_to q ch = map snd (filter (\<lambda>p. fst p = q) (sent ch))"

section \<open>Collecting brainstorm responses (collaboration skill, collectResponses)\<close>

text \<open>
  \<^verbatim>\<open>async function collectResponses(sessionId, options = {}) {
    const { timeout = 60000, minResponses = 1, maxResponses = Infinity } = options;
    const responses = [];
    const startTime = Date.now();
    return new Promise((resolve) => {
      const interval = setInterval(() => {
        const elapsed = Date.now() - startTime;
        if (elapsed >= timeout) { clearInterval(interval); resolve(responses); }
        if (responses.length >= minResponses && responses.length >= maxResponses) {
          clearInterval(interval); resolve(responses); }
      }, 1000);
      consumeResults('agent.results', (result) => {
        if (result.sessionId === sessionId) { responses.push(result); }
      });
    });\<close>

  Time is in milliseconds since \<open>startTime\<close>. The results consumed from the shared
  queue are given with their times of arrival, in the order of delivery. The interval
  fires at 1000, 2000, ...; a result that arrives at the instant of a tick is pushed
  before the tick's callback runs. The value of the promise is the array as it is when
  \<open>resolve\<close> is first called, paired here with the time of that call. The two tests
  of a tick resolve with the same array and only the first \<open>resolve\<close> counts, so they
  are read as one chain; a tick that resolves is the last one (\<open>clearInterval\<close>).
\<close>

record collect_options =
  opt_timeout :: "nat option"
  opt_minResponses :: "nat option"
  opt_maxResponses :: "enat option"

type_synonym arrival = "nat \<times> brainstorm_response"

definition responses_at :: "jsval \<Rightarrow> arrival list \<Rightarrow> nat \<Rightarrow> brainstorm_response list" where
  "responses_at sid arrivals t =
     map snd (filter (\<lambda>p. fst p \<le> t \<and> sessionId (snd p) = sid) arrivals)"

function poll ::
  "jsval \<Rightarrow> nat \<Rightarrow> nat \<Rightarrow> enat \<Rightarrow> arrival list \<Rightarrow> nat \<Rightarrow> nat \<times> brainstorm_response list" where
  "poll sid tmo minR maxR arrivals k =
     (let elapsed = 1000 * k;
          responses = responses_at sid arrivals elapsed
      in if elapsed \<ge> tmo then (elapsed, responses)
         else if length responses \<ge> minR \<and> enat (length responses) \<ge> maxR
              then (elapsed, responses)
         else poll sid tmo minR maxR arrivals (Suc k))"
  by pat_completeness auto
termination
  by (relation "measure (\<lambda>(sid, tmo, minR, maxR, arrivals, k). tmo - 1000 * k)") auto

definition collectResponses ::
  "jsval \<Rightarrow> collect_options \<Rightarrow> arrival list \<Rightarrow> nat \<times> brainstorm_response list" where
  "collectResponses sid options arrivals =
     poll sid
       (case opt_timeout options of None \<Rightarrow> 60000 | Some t \<Rightarrow> t)
       (case opt_minResponses options of None \<Rightarrow> 1 | Some n \<Rightarrow> n)
       (case opt_maxResponses options of None \<Rightarrow> \<infinity> | Some n \<Rightarrow> n)
       arrivals 1"

section \<open>Collecting task results (rabbitmq-ops skill, collectWithTimeout)\<close>

text \<open>
  \<^verbatim>\<open>async function collectWithTimeout(taskCount, timeout = 60000) {
    const results = [];
    return new Promise((resolve) => {
      const timeoutId = setTimeout(() => {
        resolve({ complete: false, received: results.length, expected: taskCount,
                  results: results, missing: taskCount - results.length });
      }, timeout);
      consumeResults('agent.results', async (msg) => {
        results.push(msg.result);
        if (results.length === taskCount) {
          clearTimeout(timeoutId);
          resolve({ complete: true, results: results });
        }
      });
    });\<close>

  The results are given with their times of arrival, in the order of delivery; a
  result that arrives at the instant of the timeout is pushed before the timer fires.
  A field the resolved object does not have is \<open>None\<close>.
\<close>

record 'r collected =
  complete :: bool
  received :: "nat option"
  expected :: "nat option"
  results :: "'r list"
  missing :: "int option"

definition timed_out :: "nat \<Rightarrow> 'r list \<Rightarrow> 'r collected" where
  "timed_out taskCount rs =
     \<lparr>complete = False, received = Some (length rs), expected = Some taskCount,
      results = rs, missing = Some (int taskCount - int (length rs))\<rparr>"

fun consume_until :: "nat \<Rightarrow> nat \<Rightarrow> (nat \<times> 'r) list \<Rightarrow> 'r list \<Rightarrow> 'r collected" where
  "consume_until taskCount tmo [] rs = timed_out taskCount rs"
| "consume_until taskCount tmo ((arrived, r) # rest) rs =
     (if arrived > tmo then timed_out taskCount rs
      else if length (rs @ [r]) = taskCount
           then \<lparr>complete = True, received = None, expected = None,
                 results = rs @ [r], missing = None\<rparr>
           else consume_until taskCount tmo rest (rs @ [r]))"

definition collectWithTimeout :: "nat \<Rightarrow> nat option \<Rightarrow> (nat \<times> 'r) list \<Rightarrow> 'r collected" where
  "collectWithTimeout taskCount tmo arrivals =
     consume_until taskCount (case tmo of None \<Rightarrow> 60000 | Some t \<Rightarrow> t) arrivals []"

section \<open>Retrying a failed task (task distribution skill, Automatic Retry)\<close>

text \<open>
  \<^verbatim>\<open>await client.consumeTasks('agent.tasks', async (msg, { ack, nack, reject }) => {
    const { task } = msg;
    try {
      await executeTask(task);
      ack();
    } catch (error) {
      if (task.retryCount > 0) {
        task.retryCount--;
        nack(true);   // Requeue for another worker
      } else {
        reject();     // Send to dead letter
      }
    }
  });\<close>

  Whether \<open>executeTask\<close> throws is an argument of the handler. \<open>task\<close> is the copy
  of the task that the worker has parsed from the delivered message. \<open>retryCount\<close> is
  missing (\<open>None\<close>: \<open>undefined > 0\<close> is false) or an integer-valued number.

  A number is a double: \<open>task.retryCount--\<close> stores the double nearest to the count
  less one, ties going to the even significand. Below \<open>2^53\<close> that is the exact
  difference; from there on the doubles are \<open>2^(len - 53)\<close> apart, \<open>len\<close> being the
  length in bits of the magnitude.
\<close>

fun bitlen :: "nat \<Rightarrow> nat" where
  "bitlen n = (if n = 0 then 0 else Suc (bitlen (n div 2)))"

definition round_half_even :: "int \<Rightarrow> int \<Rightarrow> int" where
  "round_half_even u x =
     (let q = x div u; r = x mod u
      in if 2 * r < u then q * u
         else if u < 2 * r then (q + 1) * u
         else if even q then q * u else (q + 1) * u)"

definition js_decrement :: "int \<Rightarrow> int" where
  "js_decrement n =
     (let x = n - 1
      in if \<bar>x\<bar> < 2 ^ 53 then x
         else round_half_even (2 ^ (bitlen (nat \<bar>x\<bar>) - 53)) x)"

record task =
  task_id :: string
  priority :: nat
  retryCount :: "int option"

datatype settlement = Ack | Nack bool | Reject

definition retry_handler :: "bool \<Rightarrow> task \<Rightarrow> settlement \<times> task" where
  "retry_handler throws t =
     (if \<not> throws then (Ack, t)
      else case retryCount t of
             None \<Rightarrow> (Reject, t)
           | Some n \<Rightarrow>
               if n > 0 then (Nack True, t\<lparr>retryCount := Some (js_decrement n)\<rparr>)
               else (Reject, t))"

text \<open>
  Modelled from the spec: the redelivery of a requeued task. \<open>consumeTasks\<close>, \<open>nack\<close>
  and the broker behind them are not in the sources. \<open>nack(true)\<close> passes the broker a
  requeue flag and no message body, and by the spec (5) the attempt counters of a task
  live only in the broker's own message envelope, never in an in-process variable. So
  the message the broker holds is not changed by the handler, whose decrement is on the
  worker's parsed copy: a task settled with \<open>nack(true)\<close> is delivered again as the
  broker holds it, and any other settlement ends its deliveries. Such redelivery need not
  end, so \<open>deliveries k\<close> gives the first \<open>k\<close> deliveries (all of them, when there
  are fewer): the message as delivered, and how the handler settled it.
\<close>

fun deliveries :: "nat \<Rightarrow> (task \<Rightarrow> bool) \<Rightarrow> task \<Rightarrow> (task \<times> settlement) list" where
  "deliveries 0 throws message = []"
| "deliveries (Suc k) throws message =
     (let r = retry_handler (throws message) message
      in if fst r = Nack True then (message, fst r) # deliveries k throws message
         else [(message, fst r)])"

section \<open>The priority work queue\<close>

text \<open>
  Modelled from the spec: the order in which the broker hands out the tasks of the work
  queue. The sources only declare the queue with \<open>x-max-priority\<close> and publish with a
  \<open>priority\<close> option; the dequeue itself is the broker's. Following the spec (4.3 and 5):
  \<open>publish\<close> enqueues at the back; the consumer, holding one task at a time, is
  delivered the task of the highest priority, and among those of equal priority the one
  that arrived first.
\<close>

definition publish :: "task \<Rightarrow> task list \<Rightarrow> task list" where
  "publish t q = q @ [t]"

fun first_highest :: "task list \<Rightarrow> task option" where
  "first_highest [] = None"
| "first_highest (t # ts) =
     (case first_highest ts of
        None \<Rightarrow> Some t
      | Some u \<Rightarrow> if priority u > priority t then Some u else Some t)"

definition deliver :: "task list \<Rightarrow> (task \<times> task list) option" where
  "deliver q = (case first_highest q of None \<Rightarrow> None | Some t \<Rightarrow> Some (t, remove1 t q))"

function consume_all :: "task list \<Rightarrow> task list" where
  "consume_all q = (case deliver q of None \<Rightarrow> [] | Some (t, q') \<Rightarrow> t # consume_all q')"
  by pat_completeness auto
termination
proof (relation "measure length")
  show "wf (measure (length :: task list \<Rightarrow> nat))"
    by simp
next
  fix q :: "task list" and x t q'
  assume d: "deliver q = Some x" and x: "(t, q') = x"
  have mem: "first_highest ts = Some u \<Longrightarrow> u \<in> set ts" for ts u
    by (induction ts arbitrary: u) (auto split: option.splits if_splits)
  from d x have "first_highest q = Some t" and q': "q' = remove1 t q"
    by (auto simp: deliver_def split: option.splits)
  then have "t \<in> set q"
    using mem by blast
  then have "length (remove1 t q) < length q"
    by (simp add: length_remove1) (cases q; simp)
  then show "(q', q) \<in> measure length"
    by (simp add: q')
qed

text \<open>
  The recursive equations are unfolded by hand where a proof needs them.
\<close>

declare poll.simps [simp del]
declare bitlen.simps [simp del]
declare consume_all.simps [simp del]

section \<open>Identity resolution\<close>

lemma default_param_simps [simp]:
  "default_param Undefined d = d"
  "default_param Null d = Null"
  "default_param (Str s) d = Str s"
  by (simp_all add: default_param_def)

text \<open>
  Claim C1. The constructor resolves the agent identifier in strict priority order: the
  value of \<open>config.agentId\<close> when it is present and non-empty; otherwise the
  environment's \<open>AGENT_ID\<close> (when that is present and non-empty); otherwise the
  generated \<open>agent-<uuid>\<close>. The resolution is total: whatever is present or absent,
  the result is a string, and it is never empty.
\<close>

theorem agentId_resolution:
  "(config_agentId config = Str x \<and> x \<noteq> [] \<longrightarrow>
      this_agentId (RabbitMQClient config env u) = Str x)
 \<and> (\<not> truthy (config_agentId config) \<and> env = Str e \<and> e \<noteq> [] \<longrightarrow>
      this_agentId (RabbitMQClient config env u) = Str e)
 \<and> (\<not> truthy (config_agentId config) \<and> \<not> truthy env \<longrightarrow>
      this_agentId (RabbitMQClient config env u) = Str (''agent-'' @ u))
 \<and> (\<exists>s. this_agentId (RabbitMQClient config env u) = Str s \<and> s \<noteq> [])"
  by (cases env; cases "config_agentId config") (auto simp: RabbitMQClient_def js_or_def)

theorem agentId_resolution_witness:
  "this_agentId (RabbitMQClient (Some \<lparr>agentId = Str ''agent-7''\<rparr>) (Str ''env-1'') ''u1'')
     = Str ''agent-7''
 \<and> this_agentId (RabbitMQClient (Some \<lparr>agentId = Str ''''\<rparr>) (Str ''env-1'') ''u1'')
     = Str ''env-1''
 \<and> this_agentId (RabbitMQClient None (Str ''env-1'') ''u1'') = Str ''env-1''
 \<and> this_agentId (RabbitMQClient None Undefined ''u1'') = Str ''agent-u1''
 \<and> this_agentId (RabbitMQClient (Some \<lparr>agentId = Null\<rparr>) (Str '''') ''u1'') = Str ''agent-u1''"
  using agentId_resolution [of "Some \<lparr>agentId = Str ''agent-7''\<rparr>" "''agent-7''"
          "Str ''env-1''" "''u1''" "''env-1''"]
        agentId_resolution [of "Some \<lparr>agentId = Str ''''\<rparr>" "''''" "Str ''env-1''" "''u1''"
          "''env-1''"]
        agentId_resolution [of "None" "''''" "Str ''env-1''" "''u1''" "''env-1''"]
        agentId_resolution [of "None" "''''" "Undefined" "''u1''" "''''"]
        agentId_resolution [of "Some \<lparr>agentId = Null\<rparr>" "''''" "Str ''''" "''u1''" "''''"]
  by (simp add: config_agentId_def)

section \<open>The name of the exclusive queue\<close>

text \<open>
  The queue an agent declares for itself is not called \<open>reply.<agentId>\<close>: for the
  agent \<open>agent-1\<close> it is \<open>brainstorm.results.agent-1\<close>.
\<close>

theorem reply_queue_name_counterexample:
  "fst (setupBrainstormResultQueue \<lparr>this_agentId = Str ''agent-1''\<rparr>
          \<lparr>asserted = [], sent = []\<rparr>) = ''brainstorm.results.agent-1''
 \<and> fst (setupBrainstormResultQueue \<lparr>this_agentId = Str ''agent-1''\<rparr>
          \<lparr>asserted = [], sent = []\<rparr>) \<noteq> ''reply.'' @ ''agent-1''"
  by (simp add: setupBrainstormResultQueue_def Let_def)

text \<open>
  Claim C2, amended. For an agent with identifier \<open>a\<close>, the exclusive queue is named
  \<open>brainstorm.results.\<close> followed by \<open>a\<close>, and this one name is used by the three
  places that compute it: \<open>setupBrainstormResultQueue\<close>, which declares the queue
  (exclusive, auto-deleted, not durable) and returns its name; \<open>broadcastBrainstorm\<close>,
  which announces it as \<open>replyTo\<close>; and \<open>publishResult\<close> with the target \<open>a\<close>
  (non-empty), which sends to it.
\<close>

theorem exclusive_queue_name:
  assumes "this_agentId this = Str a"
  shows "fst (setupBrainstormResultQueue this ch) = ''brainstorm.results.'' @ a
       \<and> asserted (snd (setupBrainstormResultQueue this ch)) =
           asserted ch @ [(''brainstorm.results.'' @ a,
                           \<lparr>exclusive = True, autoDelete = True, durable = False\<rparr>)]
       \<and> msg_replyTo (broadcastBrainstorm this rest) = Str (''brainstorm.results.'' @ a)
       \<and> (a \<noteq> [] \<longrightarrow>
            sent (publishResult r (Str a) q ch) =
              sent ch @ [(Str (''brainstorm.results.'' @ a), r)])"
  using assms
  by (simp add: setupBrainstormResultQueue_def broadcastBrainstorm_def publishResult_def
        destinationQueue_def Let_def)

theorem exclusive_queue_name_witness:
  "fst (setupBrainstormResultQueue \<lparr>this_agentId = Str ''agent-1''\<rparr>
          \<lparr>asserted = [], sent = []\<rparr>)
     = ''brainstorm.results.agent-1''
 \<and> msg_replyTo (broadcastBrainstorm \<lparr>this_agentId = Str ''agent-1''\<rparr>
       \<lparr>msg_from = Str ''agent-1'', msg_replyTo = Undefined, msg_sessionId = Str ''s1''\<rparr>)
     = Str ''brainstorm.results.agent-1''
 \<and> map fst (sent (publishResult
       \<lparr>sessionId = Str ''s1'', from_agent = Str ''agent-2'', suggestion = ''x'', timestamp = 0,
        msg_type = ''brainstorm_response''\<rparr> (Str ''agent-1'') Undefined
       \<lparr>asserted = [], sent = []\<rparr>))
     = [Str ''brainstorm.results.agent-1'']"
  using exclusive_queue_name [of "\<lparr>this_agentId = Str ''agent-1''\<rparr>" "''agent-1''"
      "\<lparr>asserted = [], sent = []\<rparr>"
      "\<lparr>msg_from = Str ''agent-1'', msg_replyTo = Undefined, msg_sessionId = Str ''s1''\<rparr>"
      "\<lparr>sessionId = Str ''s1'', from_agent = Str ''agent-2'', suggestion = ''x'', timestamp = 0,
        msg_type = ''brainstorm_response''\<rparr>" Undefined]
  by simp

text \<open>
  The same explicit value does not always give the same queue name: the empty string is
  an explicit value that \<open>||\<close> passes over, and with no \<open>AGENT_ID\<close> two constructions
  draw two identifiers.
\<close>

theorem identity_determinism_counterexample:
  "fst (setupBrainstormResultQueue
          (RabbitMQClient (Some \<lparr>agentId = Str ''''\<rparr>) Undefined ''1111'')
          \<lparr>asserted = [], sent = []\<rparr>)
   \<noteq> fst (setupBrainstormResultQueue
          (RabbitMQClient (Some \<lparr>agentId = Str ''''\<rparr>) Undefined ''2222'')
          \<lparr>asserted = [], sent = []\<rparr>)"
  by (simp add: setupBrainstormResultQueue_def RabbitMQClient_def config_agentId_def js_or_def
        Let_def)

text \<open>
  Claim C3, amended. The name of the exclusive queue is a function of the agent
  identifier alone. Two constructions with the same non-empty explicit identifier give
  the same queue name, whatever the environment and the random draw of each run; and for
  one client the name that \<open>setupBrainstormResultQueue\<close> declares is the \<open>replyTo\<close> that
  \<open>broadcastBrainstorm\<close> announces. Two clients with equal identifiers agree on both.
\<close>

theorem identity_determinism:
  assumes "x \<noteq> []"
  shows "fst (setupBrainstormResultQueue (RabbitMQClient (Some \<lparr>agentId = Str x\<rparr>) env1 u1) ch1)
       = fst (setupBrainstormResultQueue (RabbitMQClient (Some \<lparr>agentId = Str x\<rparr>) env2 u2) ch2)
     \<and> msg_replyTo (broadcastBrainstorm this rest) = Str (fst (setupBrainstormResultQueue this ch))
     \<and> (this_agentId this = this_agentId this' \<longrightarrow>
          fst (setupBrainstormResultQueue this ch) = fst (setupBrainstormResultQueue this' ch')
        \<and> msg_replyTo (broadcastBrainstorm this rest) =
            msg_replyTo (broadcastBrainstorm this' rest'))"
  using assms
  by (simp add: setupBrainstormResultQueue_def broadcastBrainstorm_def RabbitMQClient_def
        config_agentId_def js_or_def Let_def)

theorem identity_determinism_witness:
  "fst (setupBrainstormResultQueue
          (RabbitMQClient (Some \<lparr>agentId = Str ''w''\<rparr>) Undefined ''1111'')
          \<lparr>asserted = [], sent = []\<rparr>)
   = fst (setupBrainstormResultQueue
          (RabbitMQClient (Some \<lparr>agentId = Str ''w''\<rparr>) (Str ''e'') ''2222'')
          \<lparr>asserted = [], sent = []\<rparr>)
 \<and> msg_replyTo (broadcastBrainstorm \<lparr>this_agentId = Str ''w''\<rparr>
       \<lparr>msg_from = Str ''w'', msg_replyTo = Undefined, msg_sessionId = Str ''s1''\<rparr>)
   = Str (fst (setupBrainstormResultQueue \<lparr>this_agentId = Str ''w''\<rparr>
            \<lparr>asserted = [], sent = []\<rparr>))
 \<and> msg_replyTo (broadcastBrainstorm \<lparr>this_agentId = Str ''w''\<rparr>
       \<lparr>msg_from = Str ''w'', msg_replyTo = Undefined, msg_sessionId = Str ''s1''\<rparr>)
   = msg_replyTo (broadcastBrainstorm \<lparr>this_agentId = Str ''w''\<rparr>
       \<lparr>msg_from = Str ''w'', msg_replyTo = Null, msg_sessionId = Str ''s2''\<rparr>)"
proof -
  have ne: "''w'' \<noteq> []"
    by simp
  have same: "this_agentId \<lparr>this_agentId = Str ''w''\<rparr> = this_agentId \<lparr>this_agentId = Str ''w''\<rparr>"
    by simp
  show ?thesis
    using same
      identity_determinism [OF ne, of Undefined "''1111''" "\<lparr>asserted = [], sent = []\<rparr>"
      "Str ''e''" "''2222''" "\<lparr>asserted = [], sent = []\<rparr>" "\<lparr>this_agentId = Str ''w''\<rparr>"
      "\<lparr>msg_from = Str ''w'', msg_replyTo = Undefined, msg_sessionId = Str ''s1''\<rparr>"
      "\<lparr>asserted = [], sent = []\<rparr>" "\<lparr>this_agentId = Str ''w''\<rparr>"
      "\<lparr>asserted = [], sent = []\<rparr>"
      "\<lparr>msg_from = Str ''w'', msg_replyTo = Null, msg_sessionId = Str ''s2''\<rparr>"]
    by blast
qed

section \<open>Where a result is published\<close>

lemma destinationQueue_targeted:
  "a \<noteq> [] \<Longrightarrow> destinationQueue (Str a) q = Str (''brainstorm.results.'' @ a)"
  by (simp add: destinationQueue_def)

lemma destinationQueue_shared:
  "destinationQueue Undefined Undefined = Str ''agent.results''"
  by (simp add: destinationQueue_def)

text \<open>
  A target that is not null does not always select the targeted queue: the empty string
  is not null, and a result published to it goes to the shared queue.
\<close>

theorem publishResult_destination_counterexample:
  "Str '''' \<noteq> Null
 \<and> destinationQueue (Str '''') Undefined = Str ''agent.results''
 \<and> destinationQueue (Str '''') Undefined \<noteq> Str (''brainstorm.results.'' @ '''')"
  by (simp add: destinationQueue_def)

text \<open>
  Claim C10, amended. \<open>publishResult(result, targetAgentId, queueName)\<close> sends the
  result to exactly one queue and changes nothing else. When \<open>targetAgentId\<close> is a
  non-empty string the queue is \<open>brainstorm.results.<targetAgentId>\<close>; when it is null,
  omitted or the empty string the queue is \<open>queueName\<close>, which is \<open>agent.results\<close>
  when omitted.
\<close>

theorem publishResult_destination:
  "(t \<noteq> [] \<longrightarrow> sent (publishResult r (Str t) q ch) =
       sent ch @ [(Str (''brainstorm.results.'' @ t), r)])
 \<and> (target = Null \<or> target = Undefined \<or> target = Str [] \<longrightarrow>
      sent (publishResult r target (Str qn) ch) = sent ch @ [(Str qn, r)]
    \<and> sent (publishResult r target Undefined ch) = sent ch @ [(Str ''agent.results'', r)])
 \<and> asserted (publishResult r target q ch) = asserted ch"
  by (auto simp: publishResult_def destinationQueue_def)

theorem publishResult_destination_witness:
  "map fst (sent (publishResult
       \<lparr>sessionId = Str ''s1'', from_agent = Str ''agent-2'', suggestion = ''x'', timestamp = 0,
        msg_type = ''brainstorm_response''\<rparr> (Str ''agent-1'') Undefined
       \<lparr>asserted = [], sent = []\<rparr>))
     = [Str ''brainstorm.results.agent-1'']
 \<and> map fst (sent (publishResult
       \<lparr>sessionId = Str ''s1'', from_agent = Str ''agent-2'', suggestion = ''x'', timestamp = 0,
        msg_type = ''brainstorm_response''\<rparr> Null (Str ''my.queue'')
       \<lparr>asserted = [], sent = []\<rparr>))
     = [Str ''my.queue'']
 \<and> map fst (sent (publishResult
       \<lparr>sessionId = Str ''s1'', from_agent = Str ''agent-2'', suggestion = ''x'', timestamp = 0,
        msg_type = ''brainstorm_response''\<rparr> Null Undefined
       \<lparr>asserted = [], sent = []\<rparr>))
     = [Str ''agent.results'']"
  using publishResult_destination [of "''agent-1''"
       "\<lparr>sessionId = Str ''s1'', from_agent = Str ''agent-2'', suggestion = ''x'', timestamp = 0,
        msg_type = ''brainstorm_response''\<rparr>" Undefined "\<lparr>asserted = [], sent = []\<rparr>" Null
       "''my.queue''"]
  by simp

section \<open>Dual publish\<close>

lemma sent_handleBrainstorm:
  "sent (snd (handleBrainstorm msg s now (this, ch))) =
     sent ch @
       [(destinationQueue (msg_from msg) Undefined,
         \<lparr>sessionId = msg_sessionId msg, from_agent = orch_agentId this, suggestion = s,
          timestamp = now, msg_type = ''brainstorm_response''\<rparr>),
        (Str ''agent.results'',
         \<lparr>sessionId = msg_sessionId msg, from_agent = orch_agentId this, suggestion = s,
          timestamp = now, msg_type = ''brainstorm_response''\<rparr>)]"
  by (simp add: handleBrainstorm_def publishResult_def Let_def destinationQueue_shared)

text \<open>
  Claim C4. A collaborator that handles a broadcast from the agent \<open>a\<close> publishes its
  response exactly twice, and the same response both times: first to the exclusive queue
  of the initiator (the queue the agent \<open>a\<close> declares for itself, which is the
  \<open>replyTo\<close> its broadcasts announce), then to the shared queue \<open>agent.results\<close>.
  So the consumer of the exclusive queue and the consumer of the shared queue each see
  this response added to what they had seen before.
\<close>

theorem handleBrainstorm_dual_publish:
  assumes "msg_from msg = Str a" and "a \<noteq> []"
  shows "sent (snd (handleBrainstorm msg s now (this, ch))) =
           sent ch @
             [(Str (fst (setupBrainstormResultQueue \<lparr>this_agentId = Str a\<rparr> ch0)),
               \<lparr>sessionId = msg_sessionId msg, from_agent = orch_agentId this, suggestion = s,
                timestamp = now, msg_type = ''brainstorm_response''\<rparr>),
              (Str ''agent.results'',
               \<lparr>sessionId = msg_sessionId msg, from_agent = orch_agentId this, suggestion = s,
                timestamp = now, msg_type = ''brainstorm_response''\<rparr>)]
       \<and> delivered_to (Str (''brainstorm.results.'' @ a))
             (snd (handleBrainstorm msg s now (this, ch))) =
           delivered_to (Str (''brainstorm.results.'' @ a)) ch @
             [\<lparr>sessionId = msg_sessionId msg, from_agent = orch_agentId this, suggestion = s,
               timestamp = now, msg_type = ''brainstorm_response''\<rparr>]
       \<and> delivered_to (Str ''agent.results'') (snd (handleBrainstorm msg s now (this, ch))) =
           delivered_to (Str ''agent.results'') ch @
             [\<lparr>sessionId = msg_sessionId msg, from_agent = orch_agentId this, suggestion = s,
               timestamp = now, msg_type = ''brainstorm_response''\<rparr>]
       \<and> msg_replyTo (broadcastBrainstorm \<lparr>this_agentId = Str a\<rparr> rest) =
           Str (''brainstorm.results.'' @ a)"
  using assms
  by (simp add: sent_handleBrainstorm destinationQueue_targeted delivered_to_def
        setupBrainstormResultQueue_def broadcastBrainstorm_def Let_def)

theorem handleBrainstorm_dual_publish_witness:
  "map fst (sent (snd (handleBrainstorm
      \<lparr>msg_from = Str ''agent-w'', msg_replyTo = Str ''brainstorm.results.agent-w'',
       msg_sessionId = Str ''s1''\<rparr> ''idea'' 17
      (\<lparr>orch_agentId = Str ''agent-c'', brainstormsParticipated = 0\<rparr>,
       \<lparr>asserted = [], sent = []\<rparr>))))
   = [Str ''brainstorm.results.agent-w'', Str ''agent.results'']
 \<and> delivered_to (Str ''brainstorm.results.agent-w'') (snd (handleBrainstorm
      \<lparr>msg_from = Str ''agent-w'', msg_replyTo = Str ''brainstorm.results.agent-w'',
       msg_sessionId = Str ''s1''\<rparr> ''idea'' 17
      (\<lparr>orch_agentId = Str ''agent-c'', brainstormsParticipated = 0\<rparr>,
       \<lparr>asserted = [], sent = []\<rparr>)))
   = delivered_to (Str ''agent.results'') (snd (handleBrainstorm
      \<lparr>msg_from = Str ''agent-w'', msg_replyTo = Str ''brainstorm.results.agent-w'',
       msg_sessionId = Str ''s1''\<rparr> ''idea'' 17
      (\<lparr>orch_agentId = Str ''agent-c'', brainstormsParticipated = 0\<rparr>,
       \<lparr>asserted = [], sent = []\<rparr>)))"
proof -
  have f: "msg_from \<lparr>msg_from = Str ''agent-w'',
       msg_replyTo = Str ''brainstorm.results.agent-w'', msg_sessionId = Str ''s1''\<rparr>
     = Str ''agent-w''" and ne: "''agent-w'' \<noteq> []"
    by simp_all
  show ?thesis
    using handleBrainstorm_dual_publish [OF f ne, of "''idea''" 17
      "\<lparr>orch_agentId = Str ''agent-c'', brainstormsParticipated = 0\<rparr>"
      "\<lparr>asserted = [], sent = []\<rparr>" "\<lparr>asserted = [], sent = []\<rparr>"]
    by (simp add: delivered_to_def setupBrainstormResultQueue_def Let_def)
qed

section \<open>Collecting responses\<close>

lemma poll_snd:
  "snd (poll sid tmo minR maxR arrivals k) =
     responses_at sid arrivals (fst (poll sid tmo minR maxR arrivals k))"
proof (induction sid tmo minR maxR arrivals k rule: poll.induct)
  case (1 sid tmo minR maxR arrivals k)
  show ?case
    using 1 by (subst (1 2) poll.simps) (simp add: Let_def)
qed

lemma poll_infinity_waits: "tmo \<le> fst (poll sid tmo minR \<infinity> arrivals k)"
proof (induction sid tmo minR "\<infinity>::enat" arrivals k rule: poll.induct)
  case (1 sid tmo minR arrivals k)
  show ?case
    using 1 by (subst poll.simps) (simp add: Let_def)
qed

lemma poll_partial:
  "length (snd (poll sid tmo minR maxR arrivals k)) < minR \<Longrightarrow>
   tmo \<le> fst (poll sid tmo minR maxR arrivals k)"
proof (induction sid tmo minR maxR arrivals k rule: poll.induct)
  case (1 sid tmo minR maxR arrivals k)
  show ?case
  proof (cases "tmo \<le> 1000 * k")
    case True
    then show ?thesis
      by (subst poll.simps) (simp add: Let_def)
  next
    case timeout_not_reached: False
    show ?thesis
    proof (cases "minR \<le> length (responses_at sid arrivals (1000 * k))
        \<and> maxR \<le> enat (length (responses_at sid arrivals (1000 * k)))")
      case True
      then have "poll sid tmo minR maxR arrivals k =
          (1000 * k, responses_at sid arrivals (1000 * k))"
        using timeout_not_reached by (subst poll.simps) (simp add: Let_def)
      with True "1.prems" show ?thesis
        by simp
    next
      case False
      then have eq: "poll sid tmo minR maxR arrivals k = poll sid tmo minR maxR arrivals (Suc k)"
        using timeout_not_reached by (subst poll.simps) (auto simp: Let_def)
      from "1.IH" [OF refl refl] timeout_not_reached False "1.prems" show ?thesis
        unfolding eq by auto
    qed
  qed
qed

lemma collectResponses_no_early_return:
  "opt_maxResponses options = None \<Longrightarrow>
   (case opt_timeout options of None \<Rightarrow> 60000 | Some t \<Rightarrow> t)
     \<le> fst (collectResponses sid options arrivals)"
  by (simp add: collectResponses_def poll_infinity_waits)

lemma set_responses_at: "r \<in> set (responses_at sid arrivals t) \<Longrightarrow> sessionId r = sid"
  by (auto simp: responses_at_def)

text \<open>
  Claim C8. A collector waiting on the session \<open>s1\<close> accumulates only responses whose
  \<open>sessionId\<close> is \<open>s1\<close>. Two collectors that wait on different sessions and consume
  the same stream of results never collect the same response: a response tagged with
  the other session is not in the set.
\<close>

theorem collectResponses_session_isolation:
  "(\<forall>r \<in> set (snd (collectResponses s1 options1 arrivals)). sessionId r = s1)
 \<and> (s1 \<noteq> s2 \<longrightarrow>
      set (snd (collectResponses s1 options1 arrivals)) \<inter>
      set (snd (collectResponses s2 options2 arrivals)) = {})"
  by (auto simp: collectResponses_def poll_snd dest: set_responses_at)

theorem collectResponses_session_isolation_witness:
  "snd (collectResponses (Str ''s1'')
      \<lparr>opt_timeout = Some 2000, opt_minResponses = Some 2, opt_maxResponses = None\<rparr>
      [(100, \<lparr>sessionId = Str ''s1'', from_agent = Str ''a'', suggestion = ''x'', timestamp = 1,
              msg_type = ''brainstorm_response''\<rparr>),
       (200, \<lparr>sessionId = Str ''s2'', from_agent = Str ''b'', suggestion = ''y'', timestamp = 2,
              msg_type = ''brainstorm_response''\<rparr>),
       (300, \<lparr>sessionId = Str ''s1'', from_agent = Str ''c'', suggestion = ''z'', timestamp = 3,
              msg_type = ''brainstorm_response''\<rparr>)])
   = [\<lparr>sessionId = Str ''s1'', from_agent = Str ''a'', suggestion = ''x'', timestamp = 1,
       msg_type = ''brainstorm_response''\<rparr>,
      \<lparr>sessionId = Str ''s1'', from_agent = Str ''c'', suggestion = ''z'', timestamp = 3,
       msg_type = ''brainstorm_response''\<rparr>]
 \<and> snd (collectResponses (Str ''s2'')
      \<lparr>opt_timeout = Some 2000, opt_minResponses = Some 2, opt_maxResponses = None\<rparr>
      [(100, \<lparr>sessionId = Str ''s1'', from_agent = Str ''a'', suggestion = ''x'', timestamp = 1,
              msg_type = ''brainstorm_response''\<rparr>),
       (200, \<lparr>sessionId = Str ''s2'', from_agent = Str ''b'', suggestion = ''y'', timestamp = 2,
              msg_type = ''brainstorm_response''\<rparr>),
       (300, \<lparr>sessionId = Str ''s1'', from_agent = Str ''c'', suggestion = ''z'', timestamp = 3,
              msg_type = ''brainstorm_response''\<rparr>)])
   = [\<lparr>sessionId = Str ''s2'', from_agent = Str ''b'', suggestion = ''y'', timestamp = 2,
       msg_type = ''brainstorm_response''\<rparr>]"
  using collectResponses_session_isolation [of "Str ''s1''"
      "\<lparr>opt_timeout = Some 2000, opt_minResponses = Some 2, opt_maxResponses = None\<rparr>"
      "[(100, \<lparr>sessionId = Str ''s1'', from_agent = Str ''a'', suggestion = ''x'', timestamp = 1,
              msg_type = ''brainstorm_response''\<rparr>),
       (200, \<lparr>sessionId = Str ''s2'', from_agent = Str ''b'', suggestion = ''y'', timestamp = 2,
              msg_type = ''brainstorm_response''\<rparr>),
       (300, \<lparr>sessionId = Str ''s1'', from_agent = Str ''c'', suggestion = ''z'', timestamp = 3,
              msg_type = ''brainstorm_response''\<rparr>)]"
      "Str ''s2''"
      "\<lparr>opt_timeout = Some 2000, opt_minResponses = Some 2, opt_maxResponses = None\<rparr>"]
  by (simp add: collectResponses_def poll.simps responses_at_def)

text \<open>
  Claim C5, at the input of the spec's scenario B: the session \<open>s1\<close>, a timeout of
  5000 ms, \<open>minResponses = 3\<close>, and three responses tagged \<open>s1\<close> that arrive after 100,
  200 and 300 ms. The claim has \<open>collect\<close> return early, once the three responses are
  there. \<open>collectResponses\<close> resolves at 5000 ms, when the timeout elapses: with
  \<open>maxResponses\<close> left at its default \<open>Infinity\<close> the test
  \<open>responses.length >= maxResponses\<close> of the early return is never true. Only when the
  caller also passes \<open>maxResponses = 3\<close> does the same call resolve at the first tick.
\<close>

theorem collectResponses_waits_for_timeout:
  "collectResponses (Str ''s1'')
      \<lparr>opt_timeout = Some 5000, opt_minResponses = Some 3, opt_maxResponses = None\<rparr>
      [(100, \<lparr>sessionId = Str ''s1'', from_agent = Str ''a'', suggestion = ''x'', timestamp = 1,
              msg_type = ''brainstorm_response''\<rparr>),
       (200, \<lparr>sessionId = Str ''s1'', from_agent = Str ''b'', suggestion = ''y'', timestamp = 2,
              msg_type = ''brainstorm_response''\<rparr>),
       (300, \<lparr>sessionId = Str ''s1'', from_agent = Str ''c'', suggestion = ''z'', timestamp = 3,
              msg_type = ''brainstorm_response''\<rparr>)]
   = (5000,
      [\<lparr>sessionId = Str ''s1'', from_agent = Str ''a'', suggestion = ''x'', timestamp = 1,
        msg_type = ''brainstorm_response''\<rparr>,
       \<lparr>sessionId = Str ''s1'', from_agent = Str ''b'', suggestion = ''y'', timestamp = 2,
        msg_type = ''brainstorm_response''\<rparr>,
       \<lparr>sessionId = Str ''s1'', from_agent = Str ''c'', suggestion = ''z'', timestamp = 3,
        msg_type = ''brainstorm_response''\<rparr>])
 \<and> fst (collectResponses (Str ''s1'')
      \<lparr>opt_timeout = Some 5000, opt_minResponses = Some 3, opt_maxResponses = Some 3\<rparr>
      [(100, \<lparr>sessionId = Str ''s1'', from_agent = Str ''a'', suggestion = ''x'', timestamp = 1,
              msg_type = ''brainstorm_response''\<rparr>),
       (200, \<lparr>sessionId = Str ''s1'', from_agent = Str ''b'', suggestion = ''y'', timestamp = 2,
              msg_type = ''brainstorm_response''\<rparr>),
       (300, \<lparr>sessionId = Str ''s1'', from_agent = Str ''c'', suggestion = ''z'', timestamp = 3,
              msg_type = ''brainstorm_response''\<rparr>)])
   = 1000"
  by (simp add: collectResponses_def poll.simps responses_at_def)

section \<open>Partial collections\<close>

lemma consume_until_timed_out:
  "length rs + length (takeWhile (\<lambda>p. fst p \<le> tmo) arrivals) < taskCount \<Longrightarrow>
   consume_until taskCount tmo arrivals rs =
     timed_out taskCount (rs @ map snd (takeWhile (\<lambda>p. fst p \<le> tmo) arrivals))"
proof (induction arrivals arbitrary: rs)
  case Nil
  then show ?case by simp
next
  case (Cons p arrivals)
  obtain arrived r where p: "p = (arrived, r)"
    by (cases p)
  show ?case
  proof (cases "arrived > tmo")
    case True
    then show ?thesis by (simp add: p)
  next
    case False
    with Cons.prems
    have "length (rs @ [r]) + length (takeWhile (\<lambda>p. fst p \<le> tmo) arrivals) < taskCount"
      by (simp add: p)
    from Cons.IH [OF this] False Cons.prems show ?thesis
      by (simp add: p)
  qed
qed

text \<open>
  What \<open>collectResponses\<close> returns when the timeout elapses below the minimum carries
  no mark of being incomplete. In the spec's scenario C (timeout 2000 ms, one response
  of three, \<open>minResponses = 3\<close>) it resolves with the array of that one response, and
  the same call with \<open>minResponses = 1\<close>, whose minimum is met, resolves with the same
  value.
\<close>

theorem collectResponses_no_marker_counterexample:
  "collectResponses (Str ''s2'')
      \<lparr>opt_timeout = Some 2000, opt_minResponses = Some 3, opt_maxResponses = None\<rparr>
      [(500, \<lparr>sessionId = Str ''s2'', from_agent = Str ''a'', suggestion = ''x'', timestamp = 1,
              msg_type = ''brainstorm_response''\<rparr>)]
   = (2000, [\<lparr>sessionId = Str ''s2'', from_agent = Str ''a'', suggestion = ''x'', timestamp = 1,
              msg_type = ''brainstorm_response''\<rparr>])
 \<and> collectResponses (Str ''s2'')
      \<lparr>opt_timeout = Some 2000, opt_minResponses = Some 1, opt_maxResponses = None\<rparr>
      [(500, \<lparr>sessionId = Str ''s2'', from_agent = Str ''a'', suggestion = ''x'', timestamp = 1,
              msg_type = ''brainstorm_response''\<rparr>)]
   = (2000, [\<lparr>sessionId = Str ''s2'', from_agent = Str ''a'', suggestion = ''x'', timestamp = 1,
              msg_type = ''brainstorm_response''\<rparr>])"
  by (simp add: collectResponses_def poll.simps responses_at_def)

text \<open>
  Claim C7, amended. A timeout below the minimum is not an error in either collector,
  and neither pads what it returns. \<open>collectResponses\<close> always resolves, with exactly
  the responses of its session that had arrived by then, in order of arrival, as a bare
  array; an array shorter than \<open>minResponses\<close> is returned only once the timeout has
  elapsed. \<open>collectWithTimeout\<close>, when fewer than \<open>taskCount\<close> results arrive before
  its timeout, resolves with the results received and the explicit marker:
  \<open>complete: false\<close>, \<open>received\<close>, \<open>expected\<close> and \<open>missing = expected - received\<close>.
\<close>

theorem partial_collection:
  "snd (collectResponses sid options arrivals) =
     responses_at sid arrivals (fst (collectResponses sid options arrivals))
 \<and> (length (snd (collectResponses sid options arrivals))
       < (case opt_minResponses options of None \<Rightarrow> 1 | Some n \<Rightarrow> n) \<longrightarrow>
      (case opt_timeout options of None \<Rightarrow> 60000 | Some t \<Rightarrow> t)
        \<le> fst (collectResponses sid options arrivals))
 \<and> (length (takeWhile (\<lambda>p. fst p \<le> tmo) task_results) < taskCount \<longrightarrow>
      collectWithTimeout taskCount (Some tmo) task_results =
        \<lparr>complete = False,
         received = Some (length (takeWhile (\<lambda>p. fst p \<le> tmo) task_results)),
         expected = Some taskCount,
         results = map snd (takeWhile (\<lambda>p. fst p \<le> tmo) task_results),
         missing = Some (int taskCount
                         - int (length (takeWhile (\<lambda>p. fst p \<le> tmo) task_results)))\<rparr>)"
proof (intro conjI impI)
  show "snd (collectResponses sid options arrivals) =
      responses_at sid arrivals (fst (collectResponses sid options arrivals))"
    by (simp add: collectResponses_def poll_snd)
next
  assume "length (snd (collectResponses sid options arrivals))
      < (case opt_minResponses options of None \<Rightarrow> 1 | Some n \<Rightarrow> n)"
  then show "(case opt_timeout options of None \<Rightarrow> 60000 | Some t \<Rightarrow> t)
      \<le> fst (collectResponses sid options arrivals)"
    unfolding collectResponses_def by (rule poll_partial)
next
  assume "length (takeWhile (\<lambda>p. fst p \<le> tmo) task_results) < taskCount"
  then show "collectWithTimeout taskCount (Some tmo) task_results =
        \<lparr>complete = False,
         received = Some (length (takeWhile (\<lambda>p. fst p \<le> tmo) task_results)),
         expected = Some taskCount,
         results = map snd (takeWhile (\<lambda>p. fst p \<le> tmo) task_results),
         missing = Some (int taskCount
                         - int (length (takeWhile (\<lambda>p. fst p \<le> tmo) task_results)))\<rparr>"
    using consume_until_timed_out [of "[]" tmo task_results taskCount]
    by (simp add: collectWithTimeout_def timed_out_def)
qed

theorem partial_collection_witness:
  "collectResponses (Str ''s2'')
      \<lparr>opt_timeout = Some 2000, opt_minResponses = Some 3, opt_maxResponses = None\<rparr>
      [(500, \<lparr>sessionId = Str ''s2'', from_agent = Str ''a'', suggestion = ''x'', timestamp = 1,
              msg_type = ''brainstorm_response''\<rparr>),
       (2500, \<lparr>sessionId = Str ''s2'', from_agent = Str ''b'', suggestion = ''y'', timestamp = 2,
              msg_type = ''brainstorm_response''\<rparr>)]
   = (2000, [\<lparr>sessionId = Str ''s2'', from_agent = Str ''a'', suggestion = ''x'', timestamp = 1,
              msg_type = ''brainstorm_response''\<rparr>])
 \<and> collectWithTimeout 3 (Some 2000) [(500, ''r1''), (2500, ''r2'')]
   = \<lparr>complete = False, received = Some 1, expected = Some 3, results = [''r1''],
      missing = Some 2\<rparr>"
  using partial_collection [of "Str ''s2''"
      "\<lparr>opt_timeout = Some 2000, opt_minResponses = Some 3, opt_maxResponses = None\<rparr>"
      "[(500, \<lparr>sessionId = Str ''s2'', from_agent = Str ''a'', suggestion = ''x'', timestamp = 1,
              msg_type = ''brainstorm_response''\<rparr>),
       (2500, \<lparr>sessionId = Str ''s2'', from_agent = Str ''b'', suggestion = ''y'', timestamp = 2,
              msg_type = ''brainstorm_response''\<rparr>)]"
      2000 "[(500, ''r1''), (2500, ''r2'')]" 3]
  by (simp add: collectResponses_def poll.simps responses_at_def)

section \<open>The retry bound\<close>

lemma js_decrement_exact: "\<bar>n - 1\<bar> < 2 ^ 53 \<Longrightarrow> js_decrement n = n - 1"
  by (simp add: js_decrement_def)

text \<open>At \<open>2^54\<close> the decrement is lost; just above \<open>2^53\<close> a tie goes to the even side.\<close>

lemma js_decrement_lost: "js_decrement 18014398509481984 = 18014398509481984"
  by (simp add: js_decrement_def bitlen.simps round_half_even_def Let_def)

lemma js_decrement_tie: "js_decrement 9007199254740994 = 9007199254740992"
  by (simp add: js_decrement_def bitlen.simps round_half_even_def Let_def)

lemma retry_handler_nacks:
  "retryCount t = Some n \<Longrightarrow> 0 < n \<Longrightarrow> fst (retry_handler True t) = Nack True"
  by (simp add: retry_handler_def)

lemma deliveries_never_reject:
  "retryCount t = Some n \<Longrightarrow> 0 < n \<Longrightarrow>
   deliveries k (\<lambda>_. True) t = replicate k (t, Nack True)"
  by (induction k) (simp_all add: retry_handler_nacks Let_def)

text \<open>
  Claim C6, at a task with \<open>retryCount = 3\<close> whose handler throws on every delivery.
  The claim has the task delivered as often as its retry budget allows and then
  rejected to the dead-letter queue. In the code the handler decrements the copy it
  parsed, to 2, and settles with \<open>nack(true)\<close>; the requeued message still says 3. So
  every delivery finds \<open>retryCount = 3\<close> and ends in \<open>nack(true)\<close>: whatever the
  number \<open>k\<close>, the first \<open>k\<close> deliveries are \<open>k\<close> requeues, none ends in \<open>reject()\<close>,
  and there is always a next delivery.
\<close>

theorem retry_never_rejects:
  "retryCount (snd (retry_handler True \<lparr>task_id = ''t1'', priority = 0, retryCount = Some 3\<rparr>))
     = Some 2
 \<and> deliveries k (\<lambda>_. True) \<lparr>task_id = ''t1'', priority = 0, retryCount = Some 3\<rparr>
     = replicate k (\<lparr>task_id = ''t1'', priority = 0, retryCount = Some 3\<rparr>, Nack True)
 \<and> length (deliveries k (\<lambda>_. True) \<lparr>task_id = ''t1'', priority = 0, retryCount = Some 3\<rparr>)
     = k
 \<and> Reject \<notin> snd ` set (deliveries k (\<lambda>_. True)
       \<lparr>task_id = ''t1'', priority = 0, retryCount = Some 3\<rparr>)"
proof -
  have rc: "retryCount \<lparr>task_id = ''t1'', priority = 0, retryCount = Some 3\<rparr> = Some 3"
    and pos: "(0::int) < 3"
    by simp_all
  have d: "deliveries k (\<lambda>_. True) \<lparr>task_id = ''t1'', priority = 0, retryCount = Some 3\<rparr>
      = replicate k (\<lparr>task_id = ''t1'', priority = 0, retryCount = Some 3\<rparr>, Nack True)"
    by (rule deliveries_never_reject [OF rc pos])
  have h: "retryCount (snd (retry_handler True
      \<lparr>task_id = ''t1'', priority = 0, retryCount = Some 3\<rparr>)) = Some 2"
    by (simp add: retry_handler_def js_decrement_def)
  show ?thesis
    unfolding d using h by auto
qed

section \<open>Priority order of the work queue\<close>

lemma first_highest_None: "first_highest q = None \<longleftrightarrow> q = []"
  by (cases q) (auto split: option.splits)

lemma first_highest_split:
  "first_highest q = Some t \<Longrightarrow>
   \<exists>pre post. q = pre @ t # post \<and> (\<forall>u\<in>set pre. priority u < priority t)
      \<and> (\<forall>u\<in>set post. priority u \<le> priority t)"
proof (induction q arbitrary: t)
  case Nil
  then show ?case by simp
next
  case (Cons t0 ts)
  show ?case
  proof (cases "first_highest ts")
    case None
    then have "ts = []" and "t = t0"
      using Cons.prems by (simp_all add: first_highest_None)
    then have "t0 # ts = [] @ t # [] \<and> (\<forall>u\<in>set []. priority u < priority t)
        \<and> (\<forall>u\<in>set []. priority u \<le> priority t)"
      by simp
    then show ?thesis by blast
  next
    case (Some u)
    from Cons.IH [OF Some] obtain pre post where ts: "ts = pre @ u # post"
      and pre: "\<forall>x\<in>set pre. priority x < priority u"
      and post: "\<forall>x\<in>set post. priority x \<le> priority u"
      by blast
    show ?thesis
    proof (cases "priority u > priority t0")
      case True
      then have "t = u"
        using Cons.prems Some by simp
      moreover have "t0 # ts = (t0 # pre) @ u # post"
        by (simp add: ts)
      moreover have "\<forall>x\<in>set (t0 # pre). priority x < priority u"
        using pre True by simp
      ultimately show ?thesis
        using post by blast
    next
      case False
      then have t: "t = t0"
        using Cons.prems Some by simp
      have "\<forall>x\<in>set ts. priority x \<le> priority t0"
        using pre post False by (auto simp: ts)
      then have "t0 # ts = [] @ t # ts \<and> (\<forall>x\<in>set []. priority x < priority t)
          \<and> (\<forall>x\<in>set ts. priority x \<le> priority t)"
        by (simp add: t)
      then show ?thesis by blast
    qed
  qed
qed

lemma deliver_split:
  assumes "deliver q = Some (t, q')"
  shows "\<exists>pre post. q = pre @ t # post \<and> q' = pre @ post
      \<and> (\<forall>u\<in>set pre. priority u < priority t) \<and> (\<forall>u\<in>set post. priority u \<le> priority t)"
proof -
  from assms have fh: "first_highest q = Some t" and q': "q' = remove1 t q"
    by (auto simp: deliver_def split: option.splits)
  from first_highest_split [OF fh] obtain pre post where q: "q = pre @ t # post"
    and pre: "\<forall>u\<in>set pre. priority u < priority t"
    and post: "\<forall>u\<in>set post. priority u \<le> priority t"
    by blast
  from pre have "t \<notin> set pre"
    by auto
  then have "remove1 t q = pre @ post"
    by (simp add: q remove1_append)
  with q q' pre post show ?thesis
    by blast
qed

lemma deliver_None: "deliver q = None \<longleftrightarrow> q = []"
  by (cases "first_highest q") (auto simp: deliver_def first_highest_None)

lemma consume_all_filter:
  "filter (\<lambda>t. priority t = p) (consume_all q) = filter (\<lambda>t. priority t = p) q"
proof (induction q rule: consume_all.induct)
  case (1 q)
  show ?case
  proof (cases "deliver q")
    case None
    then have "q = []"
      by (simp add: deliver_None)
    with None show ?thesis
      by (subst consume_all.simps) simp
  next
    case (Some x)
    obtain t q' where x: "x = (t, q')"
      by (cases x)
    from deliver_split [OF Some [unfolded x]] obtain pre post where q: "q = pre @ t # post"
      and q': "q' = pre @ post" and pre: "\<forall>u\<in>set pre. priority u < priority t"
      by blast
    have IH: "filter (\<lambda>t. priority t = p) (consume_all q') = filter (\<lambda>t. priority t = p) q'"
      using 1 [OF Some x [symmetric]] .
    have ca: "consume_all q = t # consume_all q'"
      by (subst consume_all.simps) (simp add: Some x)
    have lhs: "filter (\<lambda>t. priority t = p) (consume_all q) =
        (if priority t = p then [t] else []) @ filter (\<lambda>t. priority t = p) q'"
      by (simp add: ca IH)
    have "priority t = p \<Longrightarrow> filter (\<lambda>t. priority t = p) pre = []"
      using pre by (auto simp: filter_empty_conv)
    then have rhs: "filter (\<lambda>t. priority t = p) (pre @ t # post) =
        (if priority t = p then [t] else []) @ filter (\<lambda>t. priority t = p) (pre @ post)"
      by simp
    show ?thesis
      unfolding lhs unfolding q q' rhs ..
  qed
qed

lemma set_consume_all: "set (consume_all q) = set q"
proof -
  have "x \<in> set (consume_all q) \<longleftrightarrow> x \<in> set q" for x
  proof -
    have "x \<in> set (consume_all q) \<longleftrightarrow> x \<in> set (filter (\<lambda>t. priority t = priority x) (consume_all q))"
      by simp
    also have "\<dots> \<longleftrightarrow> x \<in> set (filter (\<lambda>t. priority t = priority x) q)"
      by (simp only: consume_all_filter)
    also have "\<dots> \<longleftrightarrow> x \<in> set q"
      by simp
    finally show ?thesis .
  qed
  then show ?thesis by blast
qed

lemma sorted_consume_all: "sorted_wrt (\<lambda>a b. priority b \<le> priority a) (consume_all q)"
proof (induction q rule: consume_all.induct)
  case (1 q)
  show ?case
  proof (cases "deliver q")
    case None
    then show ?thesis
      by (subst consume_all.simps) simp
  next
    case (Some x)
    obtain t q' where x: "x = (t, q')"
      by (cases x)
    from deliver_split [OF Some [unfolded x]] obtain pre post where
      q': "q' = pre @ post" and pre: "\<forall>u\<in>set pre. priority u < priority t"
      and post: "\<forall>u\<in>set post. priority u \<le> priority t"
      by blast
    have "\<forall>u\<in>set (consume_all q'). priority u \<le> priority t"
      using pre post by (auto simp: set_consume_all q' dest: less_imp_le)
    moreover have "sorted_wrt (\<lambda>a b. priority b \<le> priority a) (consume_all q')"
      using 1 [OF Some x [symmetric]] .
    ultimately show ?thesis
      by (subst consume_all.simps) (simp add: Some x)
  qed
qed

lemma low_high_low:
  assumes "priority low1 = priority low2" and "priority low1 < priority high"
  shows "consume_all (publish low2 (publish high (publish low1 []))) = [high, low1, low2]"
proof -
  have q: "publish low2 (publish high (publish low1 [])) = [low1, high, low2]"
    by (simp add: publish_def)
  have ne: "low1 \<noteq> high"
    using assms by auto
  have d1: "deliver [low1, high, low2] = Some (high, [low1, low2])"
    using assms ne by (simp add: deliver_def)
  have d2: "deliver [low1, low2] = Some (low1, [low2])"
    using assms by (simp add: deliver_def)
  have d3: "deliver [low2] = Some (low2, [])"
    by (simp add: deliver_def)
  have d4: "deliver [] = None"
    by (simp add: deliver_def)
  have "consume_all [] = []"
    by (subst consume_all.simps) (simp add: d4)
  then have "consume_all [low2] = [low2]"
    by (subst consume_all.simps) (simp add: d3)
  then have "consume_all [low1, low2] = [low1, low2]"
    by (subst consume_all.simps) (simp add: d2)
  then have "consume_all [low1, high, low2] = [high, low1, low2]"
    by (subst consume_all.simps) (simp add: d1)
  then show ?thesis
    by (simp add: q)
qed

text \<open>
  Claim C9. Each delivery hands out a task whose priority is at least that of every task
  left in the queue, and every task that arrived before it has a strictly lower priority:
  a higher priority goes first, equal priorities go in order of arrival, and the tasks
  left keep their order. Hence the order in which a single consumer receives the tasks of
  a queue is sorted by descending priority and keeps, within each priority, the order of
  arrival. In particular tasks enqueued in the order low, high, low are received in the
  order high, low, low.
\<close>

theorem priority_delivery_order:
  "(deliver q = Some (t, q') \<longrightarrow>
      (\<exists>pre post. q = pre @ t # post \<and> q' = pre @ post
         \<and> (\<forall>u\<in>set pre. priority u < priority t)
         \<and> (\<forall>u\<in>set post. priority u \<le> priority t)))
 \<and> sorted_wrt (\<lambda>a b. priority b \<le> priority a) (consume_all q)
 \<and> (\<forall>p. filter (\<lambda>t. priority t = p) (consume_all q) = filter (\<lambda>t. priority t = p) q)
 \<and> (priority low1 = priority low2 \<and> priority low1 < priority high \<longrightarrow>
      consume_all (publish low2 (publish high (publish low1 []))) = [high, low1, low2])"
  using deliver_split [of q t q'] sorted_consume_all [of q] consume_all_filter [of _ q]
    low_high_low [of low1 low2 high]
  by blast

theorem priority_delivery_order_witness:
  "deliver [\<lparr>task_id = ''a'', priority = 1, retryCount = Some 0\<rparr>,
            \<lparr>task_id = ''b'', priority = 8, retryCount = Some 0\<rparr>,
            \<lparr>task_id = ''c'', priority = 1, retryCount = Some 0\<rparr>]
     = Some (\<lparr>task_id = ''b'', priority = 8, retryCount = Some 0\<rparr>,
             [\<lparr>task_id = ''a'', priority = 1, retryCount = Some 0\<rparr>,
              \<lparr>task_id = ''c'', priority = 1, retryCount = Some 0\<rparr>])
 \<and> consume_all
      (publish \<lparr>task_id = ''c'', priority = 1, retryCount = Some 0\<rparr>
        (publish \<lparr>task_id = ''b'', priority = 8, retryCount = Some 0\<rparr>
          (publish \<lparr>task_id = ''a'', priority = 1, retryCount = Some 0\<rparr> [])))
     = [\<lparr>task_id = ''b'', priority = 8, retryCount = Some 0\<rparr>,
        \<lparr>task_id = ''a'', priority = 1, retryCount = Some 0\<rparr>,
        \<lparr>task_id = ''c'', priority = 1, retryCount = Some 0\<rparr>]"
proof -
  have d: "deliver [\<lparr>task_id = ''a'', priority = 1, retryCount = Some 0\<rparr>,
            \<lparr>task_id = ''b'', priority = 8, retryCount = Some 0\<rparr>,
            \<lparr>task_id = ''c'', priority = 1, retryCount = Some 0\<rparr>]
     = Some (\<lparr>task_id = ''b'', priority = 8, retryCount = Some 0\<rparr>,
             [\<lparr>task_id = ''a'', priority = 1, retryCount = Some 0\<rparr>,
              \<lparr>task_id = ''c'', priority = 1, retryCount = Some 0\<rparr>])"
    by (simp add: deliver_def)
  show ?thesis
    using d priority_delivery_order
      [of "[\<lparr>task_id = ''a'', priority = 1, retryCount = Some 0\<rparr>,
            \<lparr>task_id = ''b'', priority = 8, retryCount = Some 0\<rparr>,
            \<lparr>task_id = ''c'', priority = 1, retryCount = Some 0\<rparr>]"
          "\<lparr>task_id = ''b'', priority = 8, retryCount = Some 0\<rparr>"
          "[\<lparr>task_id = ''a'', priority = 1, retryCount = Some 0\<rparr>,
            \<lparr>task_id = ''c'', priority = 1, retryCount = Some 0\<rparr>]"
          "\<lparr>task_id = ''a'', priority = 1, retryCount = Some 0\<rparr>"
          "\<lparr>task_id = ''c'', priority = 1, retryCount = Some 0\<rparr>"
          "\<lparr>task_id = ''b'', priority = 8, retryCount = Some 0\<rparr>"]
    by simp
qed

end
